theory Spec2Isabelle
  imports Complex_Main
begin

section \<open>The prediction market of \<open>src/PredictionView.ts\<close>\<close>

text \<open>
  A shallow embedding of the class \<open>MarketLogic\<close> (the pool invariant, the odds, the
  ledger of bets and the replay) and of the parts of \<open>PredictionView\<close> that load a
  document and guard the two forms.

  Numbers. A TypeScript \<open>number\<close> is an IEEE double. The first reading takes it as
  a real number: \<open>Math.log2 x\<close> is \<open>log 2 x\<close>, \<open>Math.pow(2, x)\<close> is \<open>2 powr x\<close>; the
  one place where the source tests for NaN (the forms) takes the parsed amount as a
  \<open>real option\<close>. That reading serves the formulas, the ledger and the frame of each
  operation. It has no overflow, no infinity and no NaN, and the netting of \<open>replay\<close>
  turns on them: the pool, the odds and \<open>replay\<close> are therefore read a second time
  over doubles with their infinities and NaN (the names that end in \<open>D\<close>). Neither
  reading rounds: what the rounding of \<open>Math.log2\<close> and \<open>Math.pow\<close> does to the last
  bits of a result cannot be said here.
\<close>

subsection \<open>Data\<close>

datatype Direction = YES | NO

text \<open>The nested object \<open>size\<close> of a bet.\<close>

record BetSize =
  mana :: real
  direction :: Direction

text \<open>
  Interface \<open>Bet\<close>. The field \<open>size\<close> is named \<open>bet_size\<close> here, \<open>size\<close> being a
  constant of HOL.
\<close>

record Bet =
  timestamp :: string
  bet_size :: BetSize
  comment :: "string option"
  sharesReceived :: real
  log2oddsBefore :: real
  log2oddsAfter :: real

text \<open>
  Class \<open>MarketLogic\<close>. The JavaScript \<open>Map<number, Bet>\<close> keeps its entries in
  insertion order under distinct keys: it is the list of its entries in that order.
\<close>

record MarketLogic =
  pool :: "real \<times> real"
  k :: real
  bets :: "(real \<times> Bet) list"

text \<open>The constructor.\<close>

definition newMarketLogic :: MarketLogic where
  "newMarketLogic =
     (let p = (512, 512)
      in \<lparr>pool = p, k = log 2 (fst p) * log 2 (snd p), bets = []\<rparr>)"

subsection \<open>The pool invariant\<close>

text \<open>
  \<open>poolBet(amount, flip)\<close> returns the shares and leaves the new pool in the object:
  the model returns both.
\<close>

definition poolBet :: "real \<Rightarrow> bool \<Rightarrow> MarketLogic \<Rightarrow> real \<times> MarketLogic" where
  "poolBet amount flip s =
     (let (y0, n0) = pool s;
          y = y0 + amount;
          n = n0 + amount
      in if \<not> flip then
           (let niy = k s / log 2 n;
                newY = 2 powr niy;
                shares = y - newY;
                newN = n
            in (shares, s\<lparr>pool := (newY, newN)\<rparr>))
         else
           (let nin = k s / log 2 y;
                newN = 2 powr nin;
                shares = n - newN;
                newY = y
            in (shares, s\<lparr>pool := (newY, newN)\<rparr>)))"

subsection \<open>The odds\<close>

record OddsState =
  log2odds :: real
  probability :: real

definition computeState :: "MarketLogic \<Rightarrow> OddsState" where
  "computeState s =
     (let (y, n) = pool s;
          logY = log 2 y;
          logN = log 2 n;
          probability = (n * logN) / (n * logN + y * logY);
          log2odds = log 2 (probability / (1 - probability))
      in \<lparr>log2odds = log2odds, probability = probability\<rparr>)"

subsection \<open>The ledger\<close>

text \<open>
  What the source throws: \<open>new Error(msg)\<close>, and the \<open>TypeError\<close> and \<open>SyntaxError\<close>
  of the runtime.
\<close>

datatype error = Error string | TypeError | SyntaxError

text \<open>
  \<open>Map.prototype.has\<close>, \<open>get\<close> and \<open>set\<close> on the list of entries: \<open>set\<close> on a key
  that is present replaces the value where it stands, on a new key it appends.
\<close>

fun Map_has :: "'k \<Rightarrow> ('k \<times> 'v) list \<Rightarrow> bool" where
  "Map_has key [] = False"
| "Map_has key (e # es) = (fst e = key \<or> Map_has key es)"

fun Map_get :: "'k \<Rightarrow> ('k \<times> 'v) list \<Rightarrow> 'v option" where
  "Map_get key [] = None"
| "Map_get key (e # es) = (if fst e = key then Some (snd e) else Map_get key es)"

fun Map_set :: "'k \<Rightarrow> 'v \<Rightarrow> ('k \<times> 'v) list \<Rightarrow> ('k \<times> 'v) list" where
  "Map_set key v [] = [(key, v)]"
| "Map_set key v (e # es) =
     (if fst e = key then (key, v) # es else e # Map_set key v es)"

text \<open>
  \<open>updateBet\<close> throws when the key is absent; otherwise it assigns three fields of
  the stored object, which stays where it is in the map: the entry under \<open>lt\<close> is
  replaced in place. The result is what the call returns or throws, with the object
  after the call. (After \<open>has\<close> the \<open>get\<close> cannot come back undefined; the branch is
  there because \<open>Map_get\<close> returns an option.)
\<close>

definition updateBet ::
  "real \<Rightarrow> real \<Rightarrow> Direction \<Rightarrow> string option \<Rightarrow> MarketLogic \<Rightarrow> (error + Bet) \<times> MarketLogic"
where
  "updateBet lt amount dir cmt s =
     (if \<not> Map_has lt (bets s) then (Inl (Error ''Bet not found''), s)
      else
        (case Map_get lt (bets s) of
           None \<Rightarrow> (Inl TypeError, s)
         | Some bet \<Rightarrow>
             (let bet1 = bet\<lparr>bet_size := (bet_size bet)\<lparr>mana := amount\<rparr>\<rparr>;
                  bet2 = bet1\<lparr>bet_size := (bet_size bet1)\<lparr>direction := dir\<rparr>\<rparr>;
                  bet3 = bet2\<lparr>comment := cmt\<rparr>
              in (Inr bet3, s\<lparr>bets := Map_set lt bet3 (bets s)\<rparr>))))"

text \<open>
  \<open>placeBet\<close>; \<open>now\<close> is what \<open>new Date().toISOString()\<close> returns at the call, and
  \<open>this.bets.size\<close> is the number of entries.
\<close>

definition placeBet ::
  "string \<Rightarrow> real \<Rightarrow> Direction \<Rightarrow> string option \<Rightarrow> string option \<Rightarrow> MarketLogic
   \<Rightarrow> Bet \<times> MarketLogic"
where
  "placeBet now amount dir cmt ts s =
     (let lt = real (length (bets s));
          bet = \<lparr>timestamp = (case ts of None \<Rightarrow> now | Some t \<Rightarrow> t),
                 bet_size = \<lparr>mana = amount, direction = dir\<rparr>,
                 comment = cmt,
                 sharesReceived = 0,
                 log2oddsBefore = 0,
                 log2oddsAfter = 0\<rparr>
      in (bet, s\<lparr>bets := Map_set lt bet (bets s)\<rparr>))"

definition getPool :: "MarketLogic \<Rightarrow> real \<times> real" where
  "getPool s = pool s"

subsection \<open>Replay\<close>

text \<open>
  What \<open>replay\<close> returns; its fields \<open>mana\<close> and \<open>bets\<close> are \<open>res_mana\<close> and \<open>res_bets\<close>
  here, the short names being fields of \<open>BetSize\<close> and \<open>MarketLogic\<close>.
\<close>

record ReplayResult =
  yesShares :: real
  noShares :: real
  res_mana :: real
  res_bets :: "Bet list"

text \<open>
  One turn of the loop, on the object and the locals \<open>sy\<close>, \<open>sn\<close>, \<open>mana\<close> (here
  \<open>manaAcc\<close>) and \<open>updatedBets\<close>. The bet pushed is a copy of the stored one with the
  three derived fields set: the stored bet keeps its own. (The copy is shallow and
  shares the object \<open>size\<close> with the stored bet; values stand for objects here, and
  \<open>drawMe\<close> takes the bets of a fresh replay each time.)
\<close>

definition replay_step ::
  "real \<times> Bet \<Rightarrow> MarketLogic \<times> real \<times> real \<times> real \<times> Bet list
   \<Rightarrow> MarketLogic \<times> real \<times> real \<times> real \<times> Bet list"
where
  "replay_step e acc =
     (let (lt, bet) = e;
          (s, sy, sn, manaAcc, updatedBets) = acc;
          oddsBefore = log2odds (computeState s);
          amount = mana (bet_size bet);
          flip = (direction (bet_size bet) = NO);
          (shares, s') = poolBet \<bar>amount\<bar> flip s;
          oddsAfter = log2odds (computeState s');
          (sy', sn', manaAcc') =
             (if flip then (sy, sn + shares, manaAcc + amount)
              else (sy + shares, sn, manaAcc - amount))
      in (s', sy', sn', manaAcc',
          updatedBets @ [bet\<lparr>sharesReceived := shares,
                              log2oddsBefore := oddsBefore,
                              log2oddsAfter := oddsAfter\<rparr>]))"

fun replay_loop ::
  "(real \<times> Bet) list \<Rightarrow> MarketLogic \<times> real \<times> real \<times> real \<times> Bet list
   \<Rightarrow> MarketLogic \<times> real \<times> real \<times> real \<times> Bet list"
where
  "replay_loop [] acc = acc"
| "replay_loop (e # es) acc = replay_loop es (replay_step e acc)"

text \<open>
  \<open>replay\<close>: the entries sorted by key (the sort of the source is stable, as
  \<open>sort_key\<close> is), the loop, the netting.
\<close>

definition replay :: "MarketLogic \<Rightarrow> ReplayResult \<times> MarketLogic" where
  "replay s =
     (let s0 = s\<lparr>pool := (512, 512)\<rparr>;
          (s1, sy, sn, manaAcc, updatedBets) =
             replay_loop (sort_key fst (bets s0)) (s0, 0, 0, 0, []);
          redeemed = min sy sn
      in (\<lparr>yesShares = sy - redeemed,
           noShares = sn - redeemed,
           res_mana = manaAcc,
           res_bets = updatedBets\<rparr>, s1))"

text \<open>
  The objects a program can hold: a new one, and what \<open>placeBet\<close>, \<open>updateBet\<close> and
  \<open>replay\<close> make of one.
\<close>

inductive ledger :: "MarketLogic \<Rightarrow> bool" where
  ledger_new: "ledger newMarketLogic"
| ledger_place: "ledger s \<Longrightarrow> ledger (snd (placeBet now amount dir cmt ts s))"
| ledger_update: "ledger s \<Longrightarrow> ledger (snd (updateBet lt amount dir cmt s))"
| ledger_replay: "ledger s \<Longrightarrow> ledger (snd (replay s))"

text \<open>
  The objects on which \<open>poolBet\<close> runs: \<open>replay\<close> resets the pool, then trades the
  magnitude of each amount.
\<close>

inductive trading :: "MarketLogic \<Rightarrow> bool" where
  trading_genesis: "ledger s \<Longrightarrow> trading (s\<lparr>pool := (512, 512)\<rparr>)"
| trading_trade: "trading s \<Longrightarrow> trading (snd (poolBet \<bar>amount\<bar> flip s))"

subsection \<open>Invariants\<close>

text \<open>The keys of the ledger are \<open>0, 1, \<dots>\<close> in insertion order, and \<open>k\<close> is 81.\<close>

definition ledger_inv :: "MarketLogic \<Rightarrow> bool" where
  "ledger_inv s \<longleftrightarrow> map fst (bets s) = map real [0..<length (bets s)] \<and> k s = 81"

text \<open>Both sides of the pool exceed 1 and the product of their logarithms is \<open>k\<close>.\<close>

definition pool_inv :: "MarketLogic \<Rightarrow> bool" where
  "pool_inv s \<longleftrightarrow> 1 < fst (pool s) \<and> 1 < snd (pool s)
                 \<and> log 2 (fst (pool s)) * log 2 (snd (pool s)) = k s \<and> 0 < k s"


subsection \<open>The view: loading a document, the two forms\<close>

text \<open>
  Interface \<open>MarketData\<close> and its object \<open>pool\<close>. The fields \<open>bets\<close>, \<open>pool\<close>,
  \<open>log2odds\<close> and the three of \<open>pool\<close> carry a prefix, their short names being taken
  above. \<open>this.market\<close> holds whatever \<open>JSON.parse\<close> returned, so \<open>name\<close> and \<open>pool\<close>
  may be undefined at run time whatever the interface says: they are options. The
  optional \<open>resolution\<close> is an object of the one field \<open>outcome\<close>, and stands for it.
\<close>

record PoolData =
  pool_yesShares :: real
  pool_noShares :: real
  pool_k :: real

record MarketData =
  name :: "string option"
  market_bets :: "Bet list"
  market_pool :: "PoolData option"
  market_log2odds :: real
  userShares :: real
  resolution :: "Direction option"

text \<open>
  Class \<open>PredictionView\<close>, without the chart handle and the DOM.
\<close>

record PredictionView =
  market :: "MarketData option"
  logic :: MarketLogic

text \<open>
  What \<open>JSON.parse(content)\<close> gives, as far as \<open>setViewData\<close> and \<open>drawMe\<close> look at
  it. The parser is the runtime's: \<open>setViewData\<close> below takes what it makes of the
  content in place of the content. It throws, or
  returns a falsy value (\<open>null\<close>, \<open>false\<close>, \<open>0\<close>, the empty string), or a truthy one.
  Of a truthy value the code reads \<open>bets\<close> (\<open>None\<close>: not an array, so that
  \<open>.bets.forEach\<close> throws), of each entry \<open>size\<close> (\<open>None\<close>: \<open>bet.size\<close> is undefined or
  \<open>null\<close>, or the entry itself is \<open>null\<close>, which are the cases where \<open>bet.size.mana\<close>
  throws), \<open>comment\<close> and \<open>timestamp\<close>, and later \<open>name\<close>, \<open>pool\<close> (\<open>None\<close>: undefined or
  \<open>null\<close>, the cases where \<open>pool.k\<close> throws) and \<open>resolution\<close>.

  A field that is there is taken to have the type of the interface. A document in
  which it has another type (a \<open>size\<close> or a \<open>pool\<close> that is a number, a string or a
  boolean, a \<open>mana\<close> that is no number) has no value of type \<open>Doc\<close>: the source does
  not throw on it, it goes on with undefined fields, and the model says nothing
  about it.
\<close>

record DocBet =
  doc_timestamp :: "string option"
  doc_size :: "BetSize option"
  doc_comment :: "string option"

record Doc =
  doc_name :: "string option"
  doc_bets :: "DocBet list option"
  doc_pool :: "PoolData option"
  doc_resolution :: "Direction option"

datatype parsed = Throws | Falsy | Truthy Doc

text \<open>
  \<open>this.market = JSON.parse(content)\<close> for a truthy value. \<open>drawMe\<close> assigns \<open>bets\<close>,
  \<open>log2odds\<close> and \<open>userShares\<close> before anything reads them, so what the document
  holds there is not represented.
\<close>

definition adopt :: "Doc \<Rightarrow> MarketData" where
  "adopt doc = \<lparr>name = doc_name doc, market_bets = [], market_pool = doc_pool doc,
                market_log2odds = 0, userShares = 0, resolution = doc_resolution doc\<rparr>"

text \<open>
  The \<open>forEach\<close> of the \<open>try\<close> block; it stops at the first entry that throws. One
  time \<open>now\<close> serves all its calls of \<open>placeBet\<close>.
\<close>

fun placeAll :: "string \<Rightarrow> DocBet list \<Rightarrow> MarketLogic \<Rightarrow> error + MarketLogic" where
  "placeAll now [] l = Inr l"
| "placeAll now (bet # rest) l =
     (case doc_size bet of
        None \<Rightarrow> Inl TypeError
      | Some sz \<Rightarrow>
          placeAll now rest
            (snd (placeBet now (mana sz) (direction sz) (doc_comment bet) (doc_timestamp bet) l)))"

text \<open>The \<open>try\<close> block: what it throws, or the market and the logic it leaves.\<close>

definition tryLoad :: "parsed \<Rightarrow> string \<Rightarrow> error + (MarketData \<times> MarketLogic)" where
  "tryLoad p now =
     (case p of
        Throws \<Rightarrow> Inl SyntaxError
      | Falsy \<Rightarrow> Inl (Error ''parser fault'')
      | Truthy doc \<Rightarrow>
          (case doc_bets doc of
             None \<Rightarrow> Inl TypeError
           | Some entries \<Rightarrow>
               (case placeAll now entries newMarketLogic of
                  Inl e \<Rightarrow> Inl e
                | Inr l \<Rightarrow> Inr (adopt doc, l))))"

text \<open>The market of the \<open>catch\<close> block.\<close>

definition defaultMarket :: MarketData where
  "defaultMarket =
     \<lparr>name = Some ''Prediction Market'',
      market_bets = [],
      market_pool = Some \<lparr>pool_yesShares = 512, pool_noShares = 512,
                          pool_k = log 2 512 * log 2 512\<rparr>,
      market_log2odds = 0,
      userShares = 0,
      resolution = None\<rparr>"

text \<open>
  \<open>drawMe\<close>, up to the assignment of \<open>this.market.pool\<close>; what follows builds the page.
  Reading \<open>this.market.pool.k\<close> throws when the market has no \<open>pool\<close>.
\<close>

definition drawMe :: "PredictionView \<Rightarrow> error + PredictionView" where
  "drawMe v =
     (case market v of
        None \<Rightarrow> Inr v
      | Some m \<Rightarrow>
          (let (res, l) = replay (logic v);
               m1 = m\<lparr>market_bets := res_bets res\<rparr>;
               st = computeState l;
               m2 = m1\<lparr>market_log2odds := log2odds st\<rparr>;
               m3 = m2\<lparr>userShares := (if yesShares res > noShares res
                                      then yesShares res else - noShares res)\<rparr>
           in case market_pool m3 of
                None \<Rightarrow> Inl TypeError
              | Some p \<Rightarrow>
                  Inr (v\<lparr>market := Some (m3\<lparr>market_pool :=
                                              Some \<lparr>pool_yesShares = fst (getPool l),
                                                    pool_noShares = snd (getPool l),
                                                    pool_k = pool_k p\<rparr>\<rparr>),
                         logic := l\<rparr>)))"

text \<open>
  \<open>setViewData(content, clear)\<close>, with \<open>JSON.parse(content)\<close> for \<open>content\<close> and the time
  of the call; \<open>clear\<close> drops the chart handle only.
\<close>

definition setViewData ::
  "parsed \<Rightarrow> string \<Rightarrow> bool \<Rightarrow> PredictionView \<Rightarrow> error + PredictionView"
where
  "setViewData parsed_content now clear v =
     (let v1 = (case tryLoad parsed_content now of
                  Inr (m, l) \<Rightarrow> v\<lparr>market := Some m, logic := l\<rparr>
                | Inl e \<Rightarrow> v\<lparr>market := Some defaultMarket, logic := newMarketLogic\<rparr>)
      in drawMe v1)"

text \<open>
  The click handlers of the two forms. \<open>amount\<close> is what \<open>parseFloat\<close> returned,
  \<open>None\<close> for NaN; \<open>commentValue\<close> is the text of the comment input, and
  \<open>commentValue || undefined\<close> makes the empty text an absent comment. A refused
  amount raises an alert and returns.
\<close>

definition betButton_click ::
  "string \<Rightarrow> real option \<Rightarrow> Direction \<Rightarrow> string \<Rightarrow> PredictionView \<Rightarrow> error + PredictionView"
where
  "betButton_click now amount dir commentValue v =
     (let cmt = (if commentValue = [] then None else Some commentValue)
      in case amount of
           None \<Rightarrow> Inr v
         | Some a \<Rightarrow>
             if a \<le> 0 then Inr v
             else drawMe (v\<lparr>logic := snd (placeBet now a dir cmt None (logic v))\<rparr>))"

definition saveButton_click ::
  "nat \<Rightarrow> real option \<Rightarrow> Direction \<Rightarrow> string \<Rightarrow> PredictionView \<Rightarrow> error + PredictionView"
where
  "saveButton_click index amount dir commentValue v =
     (let cmt = (if commentValue = [] then None else Some commentValue)
      in case amount of
           None \<Rightarrow> Inr v
         | Some a \<Rightarrow>
             if a \<le> 0 then Inr v
             else
               (case updateBet (real index) a dir cmt (logic v) of
                  (Inl e, l) \<Rightarrow> Inl e
                | (Inr bet, l) \<Rightarrow> drawMe (v\<lparr>logic := l\<rparr>)))"

subsection \<open>Doubles with their infinities and NaN\<close>

text \<open>
  The second reading of a \<open>number\<close>: a finite value, \<open>Infinity\<close>, \<open>-Infinity\<close> or NaN.
  A finite result is kept as the real number it is, unless its magnitude reaches
  \<open>2^1024 - 2^970\<close>, from where on a double rounds to an infinity. The operations
  follow IEEE 754 on the infinities and NaN. Rounding to 53 bits, underflow and the
  sign of a zero are not modelled; a zero divisor counts as \<open>+0\<close>. \<open>fin\<close> takes
  the real result of an operation to the double it leaves; an amount \<open>Fin r\<close> given
  to the ledger is a double when \<open>r\<close> is below that bound.
\<close>

datatype double = Fin real | PInf | NInf | NaN

definition overflow_at :: real where
  "overflow_at = 2 ^ 1024 - 2 ^ 970"

definition fin :: "real \<Rightarrow> double" where
  "fin r = (if overflow_at \<le> r then PInf else if r \<le> - overflow_at then NInf else Fin r)"

text \<open>Unary minus, \<open>+\<close>, \<open>-\<close>, \<open>*\<close> and \<open>/\<close>.\<close>

fun negD :: "double \<Rightarrow> double" where
  "negD NaN = NaN"
| "negD PInf = NInf"
| "negD NInf = PInf"
| "negD (Fin a) = Fin (- a)"

fun addD :: "double \<Rightarrow> double \<Rightarrow> double" where
  "addD NaN y = NaN"
| "addD x NaN = NaN"
| "addD (Fin a) (Fin b) = fin (a + b)"
| "addD (Fin a) y = y"
| "addD x (Fin b) = x"
| "addD PInf PInf = PInf"
| "addD NInf NInf = NInf"
| "addD PInf NInf = NaN"
| "addD NInf PInf = NaN"

definition subD :: "double \<Rightarrow> double \<Rightarrow> double" where
  "subD x y = addD x (negD y)"

fun mulD :: "double \<Rightarrow> double \<Rightarrow> double" where
  "mulD NaN y = NaN"
| "mulD x NaN = NaN"
| "mulD (Fin a) (Fin b) = fin (a * b)"
| "mulD (Fin a) PInf = (if a = 0 then NaN else if 0 < a then PInf else NInf)"
| "mulD (Fin a) NInf = (if a = 0 then NaN else if 0 < a then NInf else PInf)"
| "mulD PInf (Fin b) = (if b = 0 then NaN else if 0 < b then PInf else NInf)"
| "mulD NInf (Fin b) = (if b = 0 then NaN else if 0 < b then NInf else PInf)"
| "mulD PInf PInf = PInf"
| "mulD NInf NInf = PInf"
| "mulD PInf NInf = NInf"
| "mulD NInf PInf = NInf"

fun divD :: "double \<Rightarrow> double \<Rightarrow> double" where
  "divD NaN y = NaN"
| "divD x NaN = NaN"
| "divD (Fin a) (Fin b) =
     (if b = 0 then (if a = 0 then NaN else if 0 < a then PInf else NInf) else fin (a / b))"
| "divD (Fin a) y = Fin 0"
| "divD PInf (Fin b) = (if 0 \<le> b then PInf else NInf)"
| "divD NInf (Fin b) = (if 0 \<le> b then NInf else PInf)"
| "divD x y = NaN"

text \<open>\<open>Math.log2\<close>, \<open>Math.pow(2, x)\<close>, \<open>Math.abs\<close> and \<open>Math.min\<close>.\<close>

fun log2D :: "double \<Rightarrow> double" where
  "log2D NaN = NaN"
| "log2D PInf = PInf"
| "log2D NInf = NaN"
| "log2D (Fin a) = (if a < 0 then NaN else if a = 0 then NInf else Fin (log 2 a))"

fun pow2D :: "double \<Rightarrow> double" where
  "pow2D NaN = NaN"
| "pow2D PInf = PInf"
| "pow2D NInf = Fin 0"
| "pow2D (Fin a) = fin (2 powr a)"

fun absD :: "double \<Rightarrow> double" where
  "absD NaN = NaN"
| "absD PInf = PInf"
| "absD NInf = PInf"
| "absD (Fin a) = Fin \<bar>a\<bar>"

fun minD :: "double \<Rightarrow> double \<Rightarrow> double" where
  "minD NaN y = NaN"
| "minD x NaN = NaN"
| "minD NInf y = NInf"
| "minD x NInf = NInf"
| "minD PInf y = y"
| "minD x PInf = x"
| "minD (Fin a) (Fin b) = Fin (min a b)"

text \<open>
  The interfaces and the class once more, with doubles for numbers; the keys of the
  map are sizes of the map and stay as they are.
\<close>

record BetSizeD =
  manaD :: double
  directionD :: Direction

record BetD =
  timestampD :: string
  bet_sizeD :: BetSizeD
  commentD :: "string option"
  sharesReceivedD :: double
  log2oddsBeforeD :: double
  log2oddsAfterD :: double

record MarketLogicD =
  poolD :: "double \<times> double"
  kD :: double
  betsD :: "(real \<times> BetD) list"

definition newMarketLogicD :: MarketLogicD where
  "newMarketLogicD =
     (let p = (Fin 512, Fin 512)
      in \<lparr>poolD = p, kD = mulD (log2D (fst p)) (log2D (snd p)), betsD = []\<rparr>)"

definition poolBetD :: "double \<Rightarrow> bool \<Rightarrow> MarketLogicD \<Rightarrow> double \<times> MarketLogicD" where
  "poolBetD amount flip s =
     (let (y0, n0) = poolD s;
          y = addD y0 amount;
          n = addD n0 amount
      in if \<not> flip then
           (let niy = divD (kD s) (log2D n);
                newY = pow2D niy;
                shares = subD y newY;
                newN = n
            in (shares, s\<lparr>poolD := (newY, newN)\<rparr>))
         else
           (let nin = divD (kD s) (log2D y);
                newN = pow2D nin;
                shares = subD n newN;
                newY = y
            in (shares, s\<lparr>poolD := (newY, newN)\<rparr>)))"

record OddsStateD =
  log2oddsD :: double
  probabilityD :: double

definition computeStateD :: "MarketLogicD \<Rightarrow> OddsStateD" where
  "computeStateD s =
     (let (y, n) = poolD s;
          logY = log2D y;
          logN = log2D n;
          probability = divD (mulD n logN) (addD (mulD n logN) (mulD y logY));
          log2odds = log2D (divD probability (subD (Fin 1) probability))
      in \<lparr>log2oddsD = log2odds, probabilityD = probability\<rparr>)"

definition placeBetD ::
  "string \<Rightarrow> double \<Rightarrow> Direction \<Rightarrow> string option \<Rightarrow> string option \<Rightarrow> MarketLogicD
   \<Rightarrow> BetD \<times> MarketLogicD"
where
  "placeBetD now amount dir cmt ts s =
     (let lt = real (length (betsD s));
          bet = \<lparr>timestampD = (case ts of None \<Rightarrow> now | Some t \<Rightarrow> t),
                 bet_sizeD = \<lparr>manaD = amount, directionD = dir\<rparr>,
                 commentD = cmt,
                 sharesReceivedD = Fin 0,
                 log2oddsBeforeD = Fin 0,
                 log2oddsAfterD = Fin 0\<rparr>
      in (bet, s\<lparr>betsD := Map_set lt bet (betsD s)\<rparr>))"

record ReplayResultD =
  yesSharesD :: double
  noSharesD :: double
  res_manaD :: double
  res_betsD :: "BetD list"

definition replay_stepD ::
  "real \<times> BetD \<Rightarrow> MarketLogicD \<times> double \<times> double \<times> double \<times> BetD list
   \<Rightarrow> MarketLogicD \<times> double \<times> double \<times> double \<times> BetD list"
where
  "replay_stepD e acc =
     (let (lt, bet) = e;
          (s, sy, sn, manaAcc, updatedBets) = acc;
          oddsBefore = log2oddsD (computeStateD s);
          amount = manaD (bet_sizeD bet);
          flip = (directionD (bet_sizeD bet) = NO);
          (shares, s') = poolBetD (absD amount) flip s;
          oddsAfter = log2oddsD (computeStateD s');
          (sy', sn', manaAcc') =
             (if flip then (sy, addD sn shares, addD manaAcc amount)
              else (addD sy shares, sn, subD manaAcc amount))
      in (s', sy', sn', manaAcc',
          updatedBets @ [bet\<lparr>sharesReceivedD := shares,
                              log2oddsBeforeD := oddsBefore,
                              log2oddsAfterD := oddsAfter\<rparr>]))"

fun replay_loopD ::
  "(real \<times> BetD) list \<Rightarrow> MarketLogicD \<times> double \<times> double \<times> double \<times> BetD list
   \<Rightarrow> MarketLogicD \<times> double \<times> double \<times> double \<times> BetD list"
where
  "replay_loopD [] acc = acc"
| "replay_loopD (e # es) acc = replay_loopD es (replay_stepD e acc)"

definition replayD :: "MarketLogicD \<Rightarrow> ReplayResultD \<times> MarketLogicD" where
  "replayD s =
     (let s0 = s\<lparr>poolD := (Fin 512, Fin 512)\<rparr>;
          (s1, sy, sn, manaAcc, updatedBets) =
             replay_loopD (sort_key fst (betsD s0)) (s0, Fin 0, Fin 0, Fin 0, []);
          redeemed = minD sy sn
      in (\<lparr>yesSharesD = subD sy redeemed,
           noSharesD = subD sn redeemed,
           res_manaD = manaAcc,
           res_betsD = updatedBets\<rparr>, s1))"

text \<open>
  The totals that the loop of \<open>replay\<close> accumulates, read off the bets it returns:
  the \<open>sharesReceived\<close> of the bets of one direction (\<open>flip\<close> for NO), added from 0 in
  the order of the bets.
\<close>

definition sharesTotalD :: "bool \<Rightarrow> BetD list \<Rightarrow> double" where
  "sharesTotalD flip bs =
     foldl addD (Fin 0)
       (map sharesReceivedD (filter (\<lambda>bet. (directionD (bet_sizeD bet) = NO) = flip) bs))"

fun finiteD :: "double \<Rightarrow> bool" where
  "finiteD (Fin a) = True"
| "finiteD x = False"

definition enteredD :: "BetD \<Rightarrow> string \<times> BetSizeD \<times> string option" where
  "enteredD b = (timestampD b, bet_sizeD b, commentD b)"

section \<open>Theorems\<close>

subsection \<open>Arithmetic of the genesis pool\<close>

lemma log2_512: "log 2 (512::real) = 9"
proof -
  have "(512::real) = 2 ^ 9" by simp
  then have "log 2 (512::real) = log 2 (2 ^ 9)" by simp
  also have "\<dots> = 9" by (subst log_pow_cancel) simp_all
  finally show ?thesis .
qed

lemma k_newMarketLogic: "k newMarketLogic = 81"
  by (simp add: newMarketLogic_def log2_512)

lemma pool_newMarketLogic: "pool newMarketLogic = (512, 512)"
  by (simp add: newMarketLogic_def)

lemma bets_newMarketLogic: "bets newMarketLogic = []"
  by (simp add: newMarketLogic_def)

subsection \<open>C1: what a trade does to the pool\<close>

text \<open>
  C1. On a pool \<open>(y, n)\<close> with both sides positive and an amount \<open>a > 0\<close>, a BUY_YES
  trade (\<open>flip\<close> false) leaves the pool \<open>(2^(k / log2 (n + a)), n + a)\<close> and issues
  \<open>(y + a) - 2^(k / log2 (n + a))\<close> shares; a BUY_NO trade (\<open>flip\<close> true) leaves
  \<open>(y + a, 2^(k / log2 (y + a)))\<close> and issues \<open>(n + a) - 2^(k / log2 (y + a))\<close>. The
  constant \<open>k\<close> and the ledger are untouched.
\<close>

theorem poolBet_trade:
  assumes "pool s = (y, n)" and "0 < y" and "0 < n" and "0 < a"
  shows "poolBet a False s =
           ((y + a) - 2 powr (k s / log 2 (n + a)),
            s\<lparr>pool := (2 powr (k s / log 2 (n + a)), n + a)\<rparr>)
       \<and> poolBet a True s =
           ((n + a) - 2 powr (k s / log 2 (y + a)),
            s\<lparr>pool := (y + a, 2 powr (k s / log 2 (y + a)))\<rparr>)"
  using assms by (simp add: poolBet_def Let_def)

theorem poolBet_trade_witness:
  "pool newMarketLogic = (512, 512) \<and> (0::real) < 512 \<and> (0::real) < 512
   \<and> poolBet 512 False newMarketLogic =
       (1024 - 2 powr (81 / 10), newMarketLogic\<lparr>pool := (2 powr (81 / 10), 1024)\<rparr>)
   \<and> poolBet 512 True newMarketLogic =
       (1024 - 2 powr (81 / 10), newMarketLogic\<lparr>pool := (1024, 2 powr (81 / 10))\<rparr>)"
proof -
  have l: "log 2 (1024::real) = 10"
  proof -
    have "log 2 (1024::real) = log 2 (2 ^ 10)" by simp
    also have "\<dots> = 10" by (subst log_pow_cancel) simp_all
    finally show ?thesis .
  qed
  show ?thesis
    using poolBet_trade [of newMarketLogic 512 512 512]
    by (simp add: pool_newMarketLogic k_newMarketLogic l)
qed

subsection \<open>C3: the odds\<close>

text \<open>
  C3. On a pool \<open>(y, n)\<close> with both sides positive, \<open>computeState\<close> returns the
  probability \<open>(n * log2 n) / (n * log2 n + y * log2 y)\<close>, the NO side in the
  numerator, and the log-odds \<open>log2 (probability / (1 - probability))\<close>.
\<close>

theorem computeState_formula:
  assumes "pool s = (y, n)" and "0 < y" and "0 < n"
  shows "probability (computeState s) = (n * log 2 n) / (n * log 2 n + y * log 2 y)
       \<and> log2odds (computeState s) =
           log 2 (probability (computeState s) / (1 - probability (computeState s)))"
  using assms by (simp add: computeState_def Let_def)

theorem computeState_formula_witness:
  "pool newMarketLogic = (512, 512) \<and> (0::real) < 512
   \<and> probability (computeState newMarketLogic) = 1 / 2
   \<and> log2odds (computeState newMarketLogic) = 0"
proof -
  have p: "probability (computeState newMarketLogic) = 1 / 2"
    using computeState_formula [of newMarketLogic 512 512]
    by (simp add: pool_newMarketLogic log2_512)
  have "log2odds (computeState newMarketLogic) =
          log 2 (probability (computeState newMarketLogic)
                 / (1 - probability (computeState newMarketLogic)))"
    using computeState_formula [of newMarketLogic 512 512]
    by (simp add: pool_newMarketLogic)
  then have "log2odds (computeState newMarketLogic) = 0"
    unfolding p by simp
  then show ?thesis
    using p by (simp add: pool_newMarketLogic)
qed

subsection \<open>The map operations\<close>

lemma Map_has_iff: "Map_has key es \<longleftrightarrow> key \<in> fst ` set es"
  by (induction es) auto

lemma Map_get_None_iff: "Map_get key es = None \<longleftrightarrow> \<not> Map_has key es"
  by (induction es) auto

lemma Map_has_get: "Map_has key es \<Longrightarrow> \<exists>v. Map_get key es = Some v"
  using Map_get_None_iff [of key es] by (cases "Map_get key es") auto

lemma Map_set_absent: "\<not> Map_has key es \<Longrightarrow> Map_set key v es = es @ [(key, v)]"
  by (induction es) auto

lemma map_fst_Map_set_present: "Map_has key es \<Longrightarrow> map fst (Map_set key v es) = map fst es"
  by (induction es) auto

lemma Map_get_Map_set:
  "Map_get key' (Map_set key v es) = (if key' = key then Some v else Map_get key' es)"
  by (induction es) auto

subsection \<open>What each operation leaves alone\<close>

lemma poolBet_frame: "bets (snd (poolBet a f s)) = bets s \<and> k (snd (poolBet a f s)) = k s"
  by (simp add: poolBet_def Let_def case_prod_beta)

lemma replay_step_frame:
  "bets (fst (replay_step e acc)) = bets (fst acc) \<and> k (fst (replay_step e acc)) = k (fst acc)"
  using poolBet_frame
  by (simp add: replay_step_def Let_def case_prod_beta)

lemma replay_loop_frame:
  "bets (fst (replay_loop es acc)) = bets (fst acc) \<and> k (fst (replay_loop es acc)) = k (fst acc)"
  by (induction es arbitrary: acc) (simp_all add: replay_step_frame)

lemma replay_frame: "bets (snd (replay s)) = bets s \<and> k (snd (replay s)) = k s"
  using replay_loop_frame [of "sort_key fst (bets s)" "(s\<lparr>pool := (512, 512)\<rparr>, 0, 0, 0, [])"]
  by (simp add: replay_def Let_def case_prod_beta)

lemma replay_cong:
  assumes "bets s = bets t" and "k s = k t"
  shows "replay s = replay t"
proof -
  have "s\<lparr>pool := (512, 512)\<rparr> = t\<lparr>pool := (512, 512)\<rparr>"
    using assms by (cases s, cases t) simp
  then show ?thesis by (simp add: replay_def)
qed

lemma placeBet_k: "k (snd (placeBet now a d c ts s)) = k s"
  by (simp add: placeBet_def Let_def)

lemma updateBet_keys: "map fst (bets (snd (updateBet lt a d c s))) = map fst (bets s)"
  by (simp add: updateBet_def Let_def map_fst_Map_set_present split: option.splits)

lemma updateBet_k: "k (snd (updateBet lt a d c s)) = k s"
  by (simp add: updateBet_def Let_def split: option.splits)

lemma updateBet_absent:
  "\<not> Map_has lt (bets s) \<Longrightarrow> updateBet lt a d c s = (Inl (Error ''Bet not found''), s)"
  by (simp add: updateBet_def)

lemma updateBet_present:
  assumes "Map_get lt (bets s) = Some b"
  shows "updateBet lt a d c s =
           (Inr (b\<lparr>bet_size := \<lparr>mana = a, direction = d\<rparr>, comment := c\<rparr>),
            s\<lparr>bets := Map_set lt (b\<lparr>bet_size := \<lparr>mana = a, direction = d\<rparr>, comment := c\<rparr>)
                        (bets s)\<rparr>)"
proof -
  have h: "Map_has lt (bets s)"
    using assms Map_get_None_iff [of lt "bets s"] by auto
  have e: "(bet_size b)\<lparr>mana := a, direction := d\<rparr> = \<lparr>mana = a, direction = d\<rparr>"
    by (cases "bet_size b") simp
  show ?thesis
    using assms h by (simp add: updateBet_def Let_def e)
qed

subsection \<open>The ledger invariant\<close>

lemma keys_fresh:
  assumes "map fst es = map real [0..<length es]"
  shows "\<not> Map_has (real (length es)) es"
proof
  assume "Map_has (real (length es)) es"
  then have "real (length es) \<in> set (map fst es)" by (simp add: Map_has_iff)
  then have "real (length es) \<in> real ` {0..<length es}" using assms by simp
  then show False by auto
qed

lemma placeBet_bets:
  assumes "map fst (bets s) = map real [0..<length (bets s)]"
  shows "bets (snd (placeBet now a d c ts s)) =
           bets s @ [(real (length (bets s)), fst (placeBet now a d c ts s))]"
  using keys_fresh [OF assms] by (simp add: placeBet_def Let_def Map_set_absent)

lemma ledger_inv_place: "ledger_inv s \<Longrightarrow> ledger_inv (snd (placeBet now a d c ts s))"
  by (simp add: ledger_inv_def placeBet_bets placeBet_k)

lemma ledger_inv_update:
  assumes "ledger_inv s"
  shows "ledger_inv (snd (updateBet lt a d c s))"
proof -
  have l: "length (bets (snd (updateBet lt a d c s))) = length (bets s)"
    using updateBet_keys [of lt a d c s] by (metis length_map)
  show ?thesis
    using assms by (simp add: ledger_inv_def updateBet_keys updateBet_k l)
qed

lemma ledger_inv: "ledger s \<Longrightarrow> ledger_inv s"
proof (induction rule: ledger.induct)
  case ledger_new
  show ?case by (simp add: ledger_inv_def k_newMarketLogic bets_newMarketLogic)
next
  case (ledger_place s now amount dir cmt ts)
  then show ?case by (simp add: ledger_inv_place)
next
  case (ledger_update s lt amount dir cmt)
  then show ?case by (simp add: ledger_inv_update)
next
  case (ledger_replay s)
  then show ?case by (simp add: ledger_inv_def replay_frame)
qed





subsection \<open>The pool invariant\<close>

lemma solve_side:
  assumes "1 < (m::real)" and "0 < c"
  shows "1 < 2 powr (c / log 2 m)" and "log 2 (2 powr (c / log 2 m)) * log 2 m = c"
proof -
  have l: "0 < log 2 m" using assms(1) by simp
  then have "0 < c / log 2 m" using assms(2) by simp
  then show "1 < 2 powr (c / log 2 m)" by simp
  show "log 2 (2 powr (c / log 2 m)) * log 2 m = c" using l by simp
qed

lemma pool_inv_poolBet:
  assumes "pool_inv s" and "0 \<le> a"
  shows "pool_inv (snd (poolBet a flip s))"
proof -
  obtain y n where p: "pool s = (y, n)" by (cases "pool s")
  have y: "1 < y + a" and n: "1 < n + a" and kpos: "0 < k s"
    using assms p by (simp_all add: pool_inv_def)
  show ?thesis
  proof (cases flip)
    case True
    then show ?thesis
      using solve_side [OF y kpos] y kpos
      by (simp add: pool_inv_def poolBet_def p Let_def mult.commute)
  next
    case False
    then show ?thesis
      using solve_side [OF n kpos] n kpos
      by (simp add: pool_inv_def poolBet_def p Let_def)
  qed
qed

lemma pool_inv_trading: "trading s \<Longrightarrow> pool_inv s"
proof (induction rule: trading.induct)
  case (trading_genesis s)
  then have "k s = 81" using ledger_inv by (simp add: ledger_inv_def)
  then show ?case by (simp add: pool_inv_def log2_512)
next
  case (trading_trade s amount flip)
  then show ?case by (simp add: pool_inv_poolBet)
qed

text \<open>
  Raising the other side from \<open>m\<close> to \<open>m + a\<close> lowers the solved side below its old
  value \<open>x\<close>.
\<close>

lemma side_shrinks:
  assumes "1 < (m::real)" and "1 < x" and "log 2 x * log 2 m = c" and "0 < c" and "0 < a"
  shows "2 powr (c / log 2 (m + a)) < x"
proof -
  have lm: "0 < log 2 m" using assms(1) by simp
  have lma: "log 2 m < log 2 (m + a)" using assms(1,5) by simp
  have "c / log 2 (m + a) < c / log 2 m"
    using lm lma assms(4) by (simp add: frac_less2)
  also have "c / log 2 m = log 2 x" using assms(3) lm by (simp add: field_simps)
  finally have "2 powr (c / log 2 (m + a)) < 2 powr (log 2 x)" by simp
  then show ?thesis using assms(2) by simp
qed

text \<open>
  In exact arithmetic a trade of an amount above 0 on such a pool issues more shares
  than the amount. This is a fact about the formula. The program computes it in
  doubles, where \<open>Math.log2\<close> and \<open>Math.pow\<close> round, and the sign of the shares of an
  amount too small to move the pool is decided by that rounding: nothing is said
  here about it.
\<close>

lemma shares_exceed_amount:
  assumes "pool_inv s" and "0 < a"
  shows "a < fst (poolBet a flip s)"
proof -
  obtain y n where p: "pool s = (y, n)" by (cases "pool s")
  have y: "1 < y" and n: "1 < n" and kpos: "0 < k s"
    and e: "log 2 y * log 2 n = k s" and e': "log 2 n * log 2 y = k s"
    using assms p by (simp_all add: pool_inv_def mult.commute)
  show ?thesis
  proof (cases flip)
    case True
    then show ?thesis
      using side_shrinks [OF y n e' kpos assms(2)]
      by (simp add: poolBet_def p Let_def)
  next
    case False
    then show ?thesis
      using side_shrinks [OF n y e kpos assms(2)]
      by (simp add: poolBet_def p Let_def)
  qed
qed

subsection \<open>C4: replaying twice\<close>

text \<open>
  C4. \<open>replay\<close> leaves the ledger and \<open>k\<close> as they were, and a second \<open>replay\<close> right
  after the first returns the same result, field for field, and leaves the same
  object.
\<close>

theorem replay_idempotent:
  "fst (replay (snd (replay s))) = fst (replay s)
   \<and> snd (replay (snd (replay s))) = snd (replay s)
   \<and> bets (snd (replay s)) = bets s \<and> k (snd (replay s)) = k s"
  using replay_cong [of "snd (replay s)" s] replay_frame [of s] by simp

subsection \<open>Netting over doubles\<close>

lemma overflow_at_pos: "(0::real) < overflow_at"
  by (simp add: overflow_at_def)

lemma k_below_overflow: "(81::real) < overflow_at"
  by (simp add: overflow_at_def)

lemma side_below_overflow: "(2::real) ^ 81 < overflow_at"
  by (simp add: overflow_at_def)

lemma bet_below_overflow: "(10::real) ^ 308 + 512 < overflow_at"
  by (simp add: overflow_at_def)

lemma side_and_bet_below_overflow: "(2::real) ^ 81 + 10 ^ 308 < overflow_at"
  by (simp add: overflow_at_def)

lemma two_bets_overflow: "overflow_at \<le> 511 + 2 * (10::real) ^ 308"
  by (simp add: overflow_at_def)

lemma fin_Fin: "- overflow_at < r \<Longrightarrow> r < overflow_at \<Longrightarrow> fin r = Fin r"
  by (simp add: fin_def)

lemma fin_PInf: "overflow_at \<le> r \<Longrightarrow> fin r = PInf"
  by (simp add: fin_def)
lemma fin_zero: "fin 0 = Fin 0"
  by (simp add: fin_def overflow_at_def)

lemma fin_nonneg: "0 \<le> r \<Longrightarrow> fin r = PInf \<or> fin r = Fin r"
  using overflow_at_pos by (auto simp add: fin_def)

lemma finiteD_Fin: "finiteD x \<Longrightarrow> \<exists>a. x = Fin a"
  by (cases x) simp_all

lemma sharesTotalD_snoc:
  "sharesTotalD flip (bs @ [b]) =
     (if (directionD (bet_sizeD b) = NO) = flip
      then addD (sharesTotalD flip bs) (sharesReceivedD b) else sharesTotalD flip bs)"
  by (simp add: sharesTotalD_def)

lemma replay_stepD_totals:
  assumes "fst (snd acc) = sharesTotalD False (snd (snd (snd (snd acc))))"
    and "fst (snd (snd acc)) = sharesTotalD True (snd (snd (snd (snd acc))))"
  shows "fst (snd (replay_stepD e acc)) =
           sharesTotalD False (snd (snd (snd (snd (replay_stepD e acc)))))
       \<and> fst (snd (snd (replay_stepD e acc))) =
           sharesTotalD True (snd (snd (snd (snd (replay_stepD e acc)))))"
  using assms
  by (simp add: replay_stepD_def Let_def case_prod_beta sharesTotalD_snoc)

lemma replay_loopD_totals:
  assumes "fst (snd acc) = sharesTotalD False (snd (snd (snd (snd acc))))"
    and "fst (snd (snd acc)) = sharesTotalD True (snd (snd (snd (snd acc))))"
  shows "fst (snd (replay_loopD es acc)) =
           sharesTotalD False (snd (snd (snd (snd (replay_loopD es acc)))))
       \<and> fst (snd (snd (replay_loopD es acc))) =
           sharesTotalD True (snd (snd (snd (snd (replay_loopD es acc)))))"
  using assms
proof (induction es arbitrary: acc)
  case Nil
  then show ?case by simp
next
  case (Cons e es)
  show ?case
    using Cons.IH [of "replay_stepD e acc"] replay_stepD_totals [OF Cons.prems, of e]
    by simp
qed

lemma replay_stepD_bets:
  "map enteredD (snd (snd (snd (snd (replay_stepD e acc))))) =
     map enteredD (snd (snd (snd (snd acc)))) @ [enteredD (snd e)]"
  by (simp add: replay_stepD_def Let_def case_prod_beta enteredD_def)

lemma replay_loopD_bets:
  "map enteredD (snd (snd (snd (snd (replay_loopD es acc))))) =
     map enteredD (snd (snd (snd (snd acc)))) @ map (enteredD \<circ> snd) es"
  by (induction es arbitrary: acc) (simp_all add: replay_stepD_bets)

lemma replayD_fields:
  "yesSharesD (fst (replayD s)) =
     subD (fst (snd (replay_loopD (sort_key fst (betsD s))
                       (s\<lparr>poolD := (Fin 512, Fin 512)\<rparr>, Fin 0, Fin 0, Fin 0, []))))
          (minD (fst (snd (replay_loopD (sort_key fst (betsD s))
                       (s\<lparr>poolD := (Fin 512, Fin 512)\<rparr>, Fin 0, Fin 0, Fin 0, []))))
                (fst (snd (snd (replay_loopD (sort_key fst (betsD s))
                       (s\<lparr>poolD := (Fin 512, Fin 512)\<rparr>, Fin 0, Fin 0, Fin 0, []))))))"
  "noSharesD (fst (replayD s)) =
     subD (fst (snd (snd (replay_loopD (sort_key fst (betsD s))
                       (s\<lparr>poolD := (Fin 512, Fin 512)\<rparr>, Fin 0, Fin 0, Fin 0, [])))))
          (minD (fst (snd (replay_loopD (sort_key fst (betsD s))
                       (s\<lparr>poolD := (Fin 512, Fin 512)\<rparr>, Fin 0, Fin 0, Fin 0, []))))
                (fst (snd (snd (replay_loopD (sort_key fst (betsD s))
                       (s\<lparr>poolD := (Fin 512, Fin 512)\<rparr>, Fin 0, Fin 0, Fin 0, []))))))"
  "res_betsD (fst (replayD s)) =
     snd (snd (snd (snd (replay_loopD (sort_key fst (betsD s))
                       (s\<lparr>poolD := (Fin 512, Fin 512)\<rparr>, Fin 0, Fin 0, Fin 0, [])))))"
  by (simp_all add: replayD_def Let_def case_prod_beta)

lemma replayD_totals:
  "fst (snd (replay_loopD (sort_key fst (betsD s))
               (s\<lparr>poolD := (Fin 512, Fin 512)\<rparr>, Fin 0, Fin 0, Fin 0, []))) =
     sharesTotalD False (res_betsD (fst (replayD s)))
   \<and> fst (snd (snd (replay_loopD (sort_key fst (betsD s))
               (s\<lparr>poolD := (Fin 512, Fin 512)\<rparr>, Fin 0, Fin 0, Fin 0, [])))) =
     sharesTotalD True (res_betsD (fst (replayD s)))"
  using replay_loopD_totals
          [of "(s\<lparr>poolD := (Fin 512, Fin 512)\<rparr>, Fin 0, Fin 0, Fin 0, [])" "sort_key fst (betsD s)"]
  by (simp add: replayD_fields(3) sharesTotalD_def)

lemma netting_finite:
  "minD (subD (Fin a) (minD (Fin a) (Fin b))) (subD (Fin b) (minD (Fin a) (Fin b))) = Fin 0"
proof (cases "a \<le> b")
  case True
  then have m: "min a b = a" by simp
  have "fin (b - a) = PInf \<or> fin (b - a) = Fin (b - a)"
    using True fin_nonneg [of "b - a"] by simp
  then show ?thesis
    using True by (auto simp add: subD_def m fin_zero)
next
  case False
  then have m: "min a b = b" by simp
  have "fin (a - b) = PInf \<or> fin (a - b) = Fin (a - b)"
    using False fin_nonneg [of "a - b"] by simp
  then show ?thesis
    using False by (auto simp add: subD_def m fin_zero)
qed

text \<open>The trades of the trace below.\<close>

lemma log2_ge_1: "2 \<le> (m::real) \<Longrightarrow> 1 \<le> log 2 m"
proof -
  assume "2 \<le> m"
  then have "log 2 2 \<le> log 2 m" by (subst log_le_cancel_iff) simp_all
  then show ?thesis by simp
qed

lemma solve_sideD:
  assumes "2 \<le> m"
  shows "pow2D (divD (Fin 81) (log2D (Fin m))) = Fin (2 powr (81 / log 2 m))"
    and "0 < 2 powr (81 / log 2 m)"
    and "2 powr (81 / log 2 m) \<le> 2 ^ 81"
proof -
  have l: "1 \<le> log 2 m" by (rule log2_ge_1 [OF assms])
  have q: "0 < 81 / log 2 m" "81 / log 2 m \<le> 81"
    using l by (simp_all add: field_simps)
  have "(2::real) powr (81 / log 2 m) \<le> 2 powr 81"
    by (rule powr_mono [OF q(2)]) simp
  also have "(2::real) powr 81 = 2 ^ 81"
    by simp
  finally show e: "2 powr (81 / log 2 m) \<le> 2 ^ 81" .
  show p: "0 < 2 powr (81 / log 2 m)" by simp
  have l0: "log 2 m \<noteq> 0" using l by linarith
  have m0: "\<not> m < 0" "m \<noteq> 0" using assms by linarith+
  have f: "fin (81 / log 2 m) = Fin (81 / log 2 m)"
    by (rule fin_Fin) (use q k_below_overflow overflow_at_pos in linarith)+
  have d: "divD (Fin 81) (log2D (Fin m)) = Fin (81 / log 2 m)"
    by (simp add: m0 l0 f)
  have g: "fin (2 powr (81 / log 2 m)) = Fin (2 powr (81 / log 2 m))"
    by (rule fin_Fin) (use e p side_below_overflow overflow_at_pos in linarith)+
  show "pow2D (divD (Fin 81) (log2D (Fin m))) = Fin (2 powr (81 / log 2 m))"
    by (simp only: d pow2D.simps g)
qed

lemma kD_newMarketLogicD: "kD newMarketLogicD = Fin 81"
proof -
  have "fin 81 = Fin 81"
    by (rule fin_Fin) (use k_below_overflow overflow_at_pos in linarith)+
  then show ?thesis
    by (simp add: newMarketLogicD_def log2_512)
qed

lemma replay_stepD_proj:
  "fst (replay_stepD e acc) =
     snd (poolBetD (absD (manaD (bet_sizeD (snd e)))) (directionD (bet_sizeD (snd e)) = NO)
            (fst acc))"
  "fst (snd (replay_stepD e acc)) =
     (if directionD (bet_sizeD (snd e)) = NO then fst (snd acc)
      else addD (fst (snd acc))
             (fst (poolBetD (absD (manaD (bet_sizeD (snd e)))) False (fst acc))))"
  "fst (snd (snd (replay_stepD e acc))) =
     (if directionD (bet_sizeD (snd e)) = NO
      then addD (fst (snd (snd acc)))
             (fst (poolBetD (absD (manaD (bet_sizeD (snd e)))) True (fst acc)))
      else fst (snd (snd acc)))"
  by (simp_all add: replay_stepD_def Let_def case_prod_beta)

lemma step_first:
  assumes p: "poolD s = (Fin 512, Fin 512)" and k: "kD s = Fin 81"
    and a: "0 < a" "a + 512 < overflow_at"
  shows "poolBetD (Fin a) False s =
           (Fin (512 + a - 2 powr (81 / log 2 (512 + a))),
            s\<lparr>poolD := (Fin (2 powr (81 / log 2 (512 + a))), Fin (512 + a))\<rparr>)"
proof -
  let ?e = "2 powr (81 / log 2 (512 + a))"
  have m: "2 \<le> 512 + a" using a by linarith
  note e = solve_sideD [OF m]
  have A: "addD (Fin 512) (Fin a) = Fin (512 + a)"
    using fin_Fin [of "512 + a"] a overflow_at_pos by simp
  have B: "subD (Fin (512 + a)) (Fin ?e) = Fin (512 + a - ?e)"
    using fin_Fin [of "512 + a - ?e"] a e(2,3) side_below_overflow overflow_at_pos by (simp add: subD_def)
  show ?thesis
    by (simp only: poolBetD_def p k Let_def prod.case A e(1) B not_False_eq_True if_True)
qed

lemma step_second:
  assumes p: "poolD s = (Fin e, Fin (512 + a))" and k: "kD s = Fin 81"
    and a: "0 < a" "overflow_at \<le> 511 + 2 * a" "2 ^ 81 + a < overflow_at"
    and e: "0 < e" "e \<le> 2 ^ 81"
  shows "poolBetD (Fin a) False s = (Fin (e + a - 1), s\<lparr>poolD := (Fin 1, PInf)\<rparr>)"
proof -
  have A: "addD (Fin e) (Fin a) = Fin (e + a)"
    using fin_Fin [of "e + a"] a e overflow_at_pos by simp
  have N: "addD (Fin (512 + a)) (Fin a) = PInf"
    using fin_PInf [of "512 + a + a"] a by simp
  have P: "pow2D (divD (Fin 81) (log2D PInf)) = Fin 1"
    using fin_Fin [of 1] k_below_overflow overflow_at_pos by simp
  have B: "subD (Fin (e + a)) (Fin 1) = Fin (e + a - 1)"
    using fin_Fin [of "e + a - 1"] a e overflow_at_pos by (simp add: subD_def)
  show ?thesis
    by (simp only: poolBetD_def p k Let_def prod.case A N P B not_False_eq_True if_True)
qed

lemma step_third:
  assumes p: "poolD s = (Fin 1, PInf)" and k: "kD s = Fin 81"
    and a: "1 \<le> a" "a + 512 < overflow_at"
  shows "poolBetD (Fin a) True s =
           (PInf, s\<lparr>poolD := (Fin (1 + a), Fin (2 powr (81 / log 2 (1 + a))))\<rparr>)"
proof -
  have m: "2 \<le> 1 + a" using a by linarith
  note e = solve_sideD [OF m]
  have A: "addD (Fin 1) (Fin a) = Fin (1 + a)"
    using fin_Fin [of "1 + a"] a overflow_at_pos by simp
  have N: "addD PInf (Fin a) = PInf" by simp
  have B: "subD PInf (Fin (2 powr (81 / log 2 (1 + a)))) = PInf"
    by (simp add: subD_def)
  show ?thesis
    by (simp only: poolBetD_def p k Let_def prod.case A N e(1) B not_True_eq_False if_False)
qed

lemma betsD_three:
  "betsD (snd (placeBetD u3 x3 d3 c3 None
            (snd (placeBetD u2 x2 d2 c2 None
               (snd (placeBetD u1 x1 d1 c1 None newMarketLogicD)))))) =
      [(0, \<lparr>timestampD = u1, bet_sizeD = \<lparr>manaD = x1, directionD = d1\<rparr>, commentD = c1,
            sharesReceivedD = Fin 0, log2oddsBeforeD = Fin 0, log2oddsAfterD = Fin 0\<rparr>),
       (1, \<lparr>timestampD = u2, bet_sizeD = \<lparr>manaD = x2, directionD = d2\<rparr>, commentD = c2,
            sharesReceivedD = Fin 0, log2oddsBeforeD = Fin 0, log2oddsAfterD = Fin 0\<rparr>),
       (2, \<lparr>timestampD = u3, bet_sizeD = \<lparr>manaD = x3, directionD = d3\<rparr>, commentD = c3,
            sharesReceivedD = Fin 0, log2oddsBeforeD = Fin 0, log2oddsAfterD = Fin 0\<rparr>)]"
  by (simp add: placeBetD_def Let_def newMarketLogicD_def)

lemma placeBetD_kD: "kD (snd (placeBetD now x d c ts s)) = kD s"
  by (simp add: placeBetD_def Let_def)

lemma betsD_one:
  "betsD (snd (placeBetD u1 x1 d1 c1 None newMarketLogicD)) =
      [(0, \<lparr>timestampD = u1, bet_sizeD = \<lparr>manaD = x1, directionD = d1\<rparr>, commentD = c1,
            sharesReceivedD = Fin 0, log2oddsBeforeD = Fin 0, log2oddsAfterD = Fin 0\<rparr>)]"
  by (simp add: placeBetD_def Let_def newMarketLogicD_def)

lemma one_bet_totals:
  assumes b: "betsD s =
      [(0, \<lparr>timestampD = bet_below_overflow, bet_sizeD = \<lparr>manaD = Fin a, directionD = YES\<rparr>, commentD = c1,
            sharesReceivedD = Fin 0, log2oddsBeforeD = Fin 0, log2oddsAfterD = Fin 0\<rparr>)]"
    and k: "kD s = Fin 81"
    and a: "0 < a" "a + 512 < overflow_at"
  shows "sharesTotalD False (res_betsD (fst (replayD s))) =
           Fin (512 + a - 2 powr (81 / log 2 (512 + a)))
       \<and> sharesTotalD True (res_betsD (fst (replayD s))) = Fin 0"
proof -
  let ?e = "2 powr (81 / log 2 (512 + a))"
  let ?b1 = "(0::real, \<lparr>timestampD = bet_below_overflow, bet_sizeD = \<lparr>manaD = Fin a, directionD = YES\<rparr>,
            commentD = c1,
            sharesReceivedD = Fin 0, log2oddsBeforeD = Fin 0, log2oddsAfterD = Fin 0\<rparr>)"
  have a0: "\<bar>a\<bar> = a" using a(1) by linarith
  have m: "2 \<le> 512 + a" using a by linarith
  note e = solve_sideD(2,3) [OF m]
  define s0 where "s0 = s\<lparr>poolD := (Fin 512, Fin 512)\<rparr>"
  define acc1 where "acc1 = replay_stepD ?b1 (s0, Fin 0, Fin 0, Fin 0, [])"
  have srt: "sort_key fst [?b1] = [?b1]" by simp
  have loop: "replay_loopD (sort_key fst (betsD s))
                (s\<lparr>poolD := (Fin 512, Fin 512)\<rparr>, Fin 0, Fin 0, Fin 0, []) = acc1"
    by (simp only: b srt replay_loopD.simps acc1_def s0_def)
  have p0: "poolD s0 = (Fin 512, Fin 512)" and k0: "kD s0 = Fin 81"
    by (simp_all add: s0_def k)
  note st1 = step_first [OF p0 k0 a]
  have y1: "fst (snd acc1) = Fin (512 + a - ?e)"
    using fin_Fin [of "512 + a - ?e"] a e side_below_overflow overflow_at_pos
    by (simp add: acc1_def replay_stepD_proj(2) a0 st1)
  have n1: "fst (snd (snd acc1)) = Fin 0"
    by (simp add: acc1_def replay_stepD_proj(3))
  show ?thesis
    using replayD_totals [of s] by (simp only: loop y1 n1)
qed

lemma overflow_trace:
  assumes b: "betsD s =
      [(0, \<lparr>timestampD = bet_below_overflow, bet_sizeD = \<lparr>manaD = Fin a, directionD = YES\<rparr>, commentD = c1,
            sharesReceivedD = Fin 0, log2oddsBeforeD = Fin 0, log2oddsAfterD = Fin 0\<rparr>),
       (1, \<lparr>timestampD = two_bets_overflow, bet_sizeD = \<lparr>manaD = Fin a, directionD = YES\<rparr>, commentD = c2,
            sharesReceivedD = Fin 0, log2oddsBeforeD = Fin 0, log2oddsAfterD = Fin 0\<rparr>),
       (2, \<lparr>timestampD = side_and_bet_below_overflow, bet_sizeD = \<lparr>manaD = Fin a, directionD = NO\<rparr>, commentD = c3,
            sharesReceivedD = Fin 0, log2oddsBeforeD = Fin 0, log2oddsAfterD = Fin 0\<rparr>)]"
    and k: "kD s = Fin 81"
    and a: "1 \<le> a" "a + 512 < overflow_at" "overflow_at \<le> 511 + 2 * a"
           "2 ^ 81 + a < overflow_at"
  shows "yesSharesD (fst (replayD s)) = NaN \<and> noSharesD (fst (replayD s)) = NaN"
proof -
  let ?e = "2 powr (81 / log 2 (512 + a))"
  have a0: "0 < a" "\<bar>a\<bar> = a" using a(1) by linarith+
  have m: "2 \<le> 512 + a" using a by linarith
  note e = solve_sideD(2,3) [OF m]
  let ?b1 = "(0::real, \<lparr>timestampD = bet_below_overflow, bet_sizeD = \<lparr>manaD = Fin a, directionD = YES\<rparr>,
            commentD = c1,
            sharesReceivedD = Fin 0, log2oddsBeforeD = Fin 0, log2oddsAfterD = Fin 0\<rparr>)"
  let ?b2 = "(1::real, \<lparr>timestampD = two_bets_overflow, bet_sizeD = \<lparr>manaD = Fin a, directionD = YES\<rparr>,
            commentD = c2,
            sharesReceivedD = Fin 0, log2oddsBeforeD = Fin 0, log2oddsAfterD = Fin 0\<rparr>)"
  let ?b3 = "(2::real, \<lparr>timestampD = side_and_bet_below_overflow, bet_sizeD = \<lparr>manaD = Fin a, directionD = NO\<rparr>,
            commentD = c3,
            sharesReceivedD = Fin 0, log2oddsBeforeD = Fin 0, log2oddsAfterD = Fin 0\<rparr>)"
  define s0 where "s0 = s\<lparr>poolD := (Fin 512, Fin 512)\<rparr>"
  define acc1 where "acc1 = replay_stepD ?b1 (s0, Fin 0, Fin 0, Fin 0, [])"
  define acc2 where "acc2 = replay_stepD ?b2 acc1"
  define acc3 where "acc3 = replay_stepD ?b3 acc2"
  have srt: "sort_key fst [?b1, ?b2, ?b3] = [?b1, ?b2, ?b3]"
    by simp
  have loop: "replay_loopD (sort_key fst (betsD s)) (s0, Fin 0, Fin 0, Fin 0, []) = acc3"
    by (simp only: b srt replay_loopD.simps acc1_def acc2_def acc3_def)
  have p0: "poolD s0 = (Fin 512, Fin 512)" and k0: "kD s0 = Fin 81"
    by (simp_all add: s0_def k)
  note st1 = step_first [OF p0 k0 a0(1) a(2)]
  have s1: "fst acc1 = s0\<lparr>poolD := (Fin ?e, Fin (512 + a))\<rparr>"
    by (simp add: acc1_def replay_stepD_proj(1) a0 st1)
  have y1: "fst (snd acc1) = Fin (512 + a - ?e)"
    using fin_Fin [of "512 + a - ?e"] a e side_below_overflow overflow_at_pos
    by (simp add: acc1_def replay_stepD_proj(2) a0 st1)
  have n1: "fst (snd (snd acc1)) = Fin 0"
    by (simp add: acc1_def replay_stepD_proj(3))
  have p1: "poolD (fst acc1) = (Fin ?e, Fin (512 + a))" and k1: "kD (fst acc1) = Fin 81"
    by (simp_all add: s1 k0)
  note st2 = step_second [OF p1 k1 a0(1) a(3) a(4) e]
  have s2: "fst acc2 = (fst acc1)\<lparr>poolD := (Fin 1, PInf)\<rparr>"
    by (simp add: acc2_def replay_stepD_proj(1) a0 st2)
  have "overflow_at \<le> 512 + a - ?e + (?e + a - 1)"
    using a(3) by simp
  then have "fin (512 + a - ?e + (?e + a - 1)) = PInf"
    by (rule fin_PInf)
  then have y2: "fst (snd acc2) = PInf"
    by (simp add: acc2_def replay_stepD_proj(2) a0 st2 y1)
  have n2: "fst (snd (snd acc2)) = Fin 0"
    by (simp add: acc2_def replay_stepD_proj(3) n1)
  have p2: "poolD (fst acc2) = (Fin 1, PInf)" and k2: "kD (fst acc2) = Fin 81"
    by (simp_all add: s2 k1)
  note st3 = step_third [OF p2 k2 a(1) a(2)]
  have y3: "fst (snd acc3) = PInf"
    by (simp add: acc3_def replay_stepD_proj(2) y2)
  have n3: "fst (snd (snd acc3)) = PInf"
    by (simp add: acc3_def replay_stepD_proj(3) a0 st3 n2)
  have l: "replay_loopD (sort_key fst (betsD s))
             (s\<lparr>poolD := (Fin 512, Fin 512)\<rparr>, Fin 0, Fin 0, Fin 0, []) = acc3"
    using loop by (simp only: s0_def)
  show ?thesis
    by (simp add: replayD_fields(1,2) l y3 n3 subD_def)
qed

subsection \<open>C5: netting\<close>

text \<open>
  C5, as the code has it. In what \<open>replay\<close> returns, \<open>yesShares\<close> and \<open>noShares\<close> are the
  accumulated YES and NO share totals, each less the smaller of the two, and the
  bets returned are the entered ones in the order of their keys. When both totals
  are finite numbers, the smaller of \<open>yesShares\<close> and \<open>noShares\<close> is 0.
\<close>

theorem replayD_netting:
  "yesSharesD (fst (replayD s)) =
     subD (sharesTotalD False (res_betsD (fst (replayD s))))
          (minD (sharesTotalD False (res_betsD (fst (replayD s))))
                (sharesTotalD True (res_betsD (fst (replayD s)))))
   \<and> noSharesD (fst (replayD s)) =
     subD (sharesTotalD True (res_betsD (fst (replayD s))))
          (minD (sharesTotalD False (res_betsD (fst (replayD s))))
                (sharesTotalD True (res_betsD (fst (replayD s)))))
   \<and> map enteredD (res_betsD (fst (replayD s))) = map (enteredD \<circ> snd) (sort_key fst (betsD s))
   \<and> (finiteD (sharesTotalD False (res_betsD (fst (replayD s))))
        \<and> finiteD (sharesTotalD True (res_betsD (fst (replayD s))))
      \<longrightarrow> minD (yesSharesD (fst (replayD s))) (noSharesD (fst (replayD s))) = Fin 0)"
proof -
  let ?sy = "sharesTotalD False (res_betsD (fst (replayD s)))"
  let ?sn = "sharesTotalD True (res_betsD (fst (replayD s)))"
  have y: "yesSharesD (fst (replayD s)) = subD ?sy (minD ?sy ?sn)"
    using replayD_totals [of s] by (simp only: replayD_fields(1))
  have n: "noSharesD (fst (replayD s)) = subD ?sn (minD ?sy ?sn)"
    using replayD_totals [of s] by (simp only: replayD_fields(2))
  have b: "map enteredD (res_betsD (fst (replayD s))) =
             map (enteredD \<circ> snd) (sort_key fst (betsD s))"
    using replay_loopD_bets
            [of "sort_key fst (betsD s)" "(s\<lparr>poolD := (Fin 512, Fin 512)\<rparr>, Fin 0, Fin 0, Fin 0, [])"]
    by (simp add: replayD_fields(3))
  have f: "minD (yesSharesD (fst (replayD s))) (noSharesD (fst (replayD s))) = Fin 0"
    if h: "finiteD ?sy \<and> finiteD ?sn"
  proof -
    obtain a where a: "?sy = Fin a" using h finiteD_Fin by blast
    obtain c where c: "?sn = Fin c" using h finiteD_Fin by blast
    show ?thesis
      unfolding y n a c by (rule netting_finite)
  qed
  show ?thesis
    using y n b f by blast
qed

theorem replayD_netting_witness:
  "finiteD (sharesTotalD False (res_betsD (fst (replayD
      (snd (placeBetD ''t'' (Fin 512) YES None None newMarketLogicD))))))
   \<and> finiteD (sharesTotalD True (res_betsD (fst (replayD
      (snd (placeBetD ''t'' (Fin 512) YES None None newMarketLogicD))))))
   \<and> minD (yesSharesD (fst (replayD
              (snd (placeBetD ''t'' (Fin 512) YES None None newMarketLogicD)))))
           (noSharesD (fst (replayD
              (snd (placeBetD ''t'' (Fin 512) YES None None newMarketLogicD))))) = Fin 0"
proof -
  let ?s = "snd (placeBetD ''t'' (Fin 512) YES None None newMarketLogicD)"
  have k: "kD ?s = Fin 81"
    by (simp only: placeBetD_kD kD_newMarketLogicD)
  have a: "(0::real) < 512" "(512::real) + 512 < overflow_at"
    by (simp_all add: overflow_at_def)
  note t = one_bet_totals [OF betsD_one k a]
  have f: "finiteD (sharesTotalD False (res_betsD (fst (replayD ?s))))"
          "finiteD (sharesTotalD True (res_betsD (fst (replayD ?s))))"
    using t by simp_all
  show ?thesis
    using f replayD_netting [of ?s] by blast
qed

text \<open>
  C5 as stated fails: after the bets YES \<open>1e308\<close>, YES \<open>1e308\<close> and NO \<open>1e308\<close> both
  totals have overflowed to \<open>Infinity\<close>, and \<open>Infinity - Infinity\<close> leaves \<open>yesShares\<close>
  and \<open>noShares\<close> NaN.
\<close>

theorem replayD_overflow:
  "yesSharesD (fst (replayD
      (snd (placeBetD ''t'' (Fin (10 ^ 308)) NO None None
         (snd (placeBetD ''t'' (Fin (10 ^ 308)) YES None None
            (snd (placeBetD ''t'' (Fin (10 ^ 308)) YES None None newMarketLogicD)))))))) = NaN
   \<and> noSharesD (fst (replayD
      (snd (placeBetD ''t'' (Fin (10 ^ 308)) NO None None
         (snd (placeBetD ''t'' (Fin (10 ^ 308)) YES None None
            (snd (placeBetD ''t'' (Fin (10 ^ 308)) YES None None newMarketLogicD)))))))) = NaN
   \<and> minD
       (yesSharesD (fst (replayD
      (snd (placeBetD ''t'' (Fin (10 ^ 308)) NO None None
         (snd (placeBetD ''t'' (Fin (10 ^ 308)) YES None None
            (snd (placeBetD ''t'' (Fin (10 ^ 308)) YES None None newMarketLogicD)))))))))
       (noSharesD (fst (replayD
      (snd (placeBetD ''t'' (Fin (10 ^ 308)) NO None None
         (snd (placeBetD ''t'' (Fin (10 ^ 308)) YES None None
            (snd (placeBetD ''t'' (Fin (10 ^ 308)) YES None None newMarketLogicD))))))))) \<noteq> Fin 0"
proof -
  let ?s = "snd (placeBetD ''t'' (Fin (10 ^ 308)) NO None None
         (snd (placeBetD ''t'' (Fin (10 ^ 308)) YES None None
            (snd (placeBetD ''t'' (Fin (10 ^ 308)) YES None None newMarketLogicD)))))"
  have k: "kD ?s = Fin 81"
    by (simp only: placeBetD_kD kD_newMarketLogicD)
  have a: "(1::real) \<le> 10 ^ 308" by simp
  have r: "yesSharesD (fst (replayD ?s)) = NaN \<and> noSharesD (fst (replayD ?s)) = NaN"
    by (rule overflow_trace [OF betsD_three k a bet_below_overflow two_bets_overflow
                               side_and_bet_below_overflow])
  then show ?thesis by simp
qed

subsection \<open>Amending a bet\<close>

lemma bets_first_bet:
  "bets (snd (placeBet now a d c ts newMarketLogic)) =
     [(0, \<lparr>timestamp = (case ts of None \<Rightarrow> now | Some t \<Rightarrow> t),
           bet_size = \<lparr>mana = a, direction = d\<rparr>, comment = c,
           sharesReceived = 0, log2oddsBefore = 0, log2oddsAfter = 0\<rparr>)]"
  by (simp add: placeBet_def Let_def bets_newMarketLogic)

lemma updateBet_absent_replay:
  assumes "\<not> Map_has lt (bets s)"
  shows "updateBet lt a d c s = (Inl (Error ''Bet not found''), s)
    \<and> replay (snd (updateBet lt a d c s)) = replay s"
  by (simp add: updateBet_absent [OF assms])

lemma updateBet_result:
  assumes "Map_get lt (bets s) = Some b"
  shows "fst (updateBet lt a d c s) =
             Inr (b\<lparr>bet_size := \<lparr>mana = a, direction = d\<rparr>, comment := c\<rparr>)"
  by (simp add: updateBet_present [OF assms])

lemma updateBet_get:
  assumes "Map_get lt (bets s) = Some b"
  shows  "Map_get key (bets (snd (updateBet lt a d c s))) =
             (if key = lt
              then Some (b\<lparr>bet_size := \<lparr>mana = a, direction = d\<rparr>, comment := c\<rparr>)
              else Map_get key (bets s))"
  by (simp add: updateBet_present [OF assms] Map_get_Map_set)

subsection \<open>C7: amending an absent or a present bet\<close>

text \<open>
  C7. When the key is absent from the ledger, \<open>updateBet\<close> throws
  \<open>Error('Bet not found')\<close> and the object is as before, so that a replay after the
  call returns what a replay before it returns. When the key is present, \<open>updateBet\<close>
  returns the stored bet with the new amount, direction and comment; the ledger holds
  that bet under the key, its keys stand in the same order, and every other key holds
  what it held.
\<close>

theorem updateBet_found_or_not:
  "(\<not> Map_has lt (bets s) \<longrightarrow>
      updateBet lt a d c s = (Inl (Error ''Bet not found''), s)
    \<and> replay (snd (updateBet lt a d c s)) = replay s)
 \<and> (Map_has lt (bets s) \<longrightarrow>
      (\<exists>b. Map_get lt (bets s) = Some b
         \<and> fst (updateBet lt a d c s) =
             Inr (b\<lparr>bet_size := \<lparr>mana = a, direction = d\<rparr>, comment := c\<rparr>)
         \<and> Map_get lt (bets (snd (updateBet lt a d c s))) =
             Some (b\<lparr>bet_size := \<lparr>mana = a, direction = d\<rparr>, comment := c\<rparr>)
         \<and> map fst (bets (snd (updateBet lt a d c s))) = map fst (bets s)
         \<and> (\<forall>key. key \<noteq> lt \<longrightarrow>
               Map_get key (bets (snd (updateBet lt a d c s))) = Map_get key (bets s))))"
proof (rule conjI)
  show "\<not> Map_has lt (bets s) \<longrightarrow>
      updateBet lt a d c s = (Inl (Error ''Bet not found''), s)
    \<and> replay (snd (updateBet lt a d c s)) = replay s"
    using updateBet_absent_replay by blast
next
  show "Map_has lt (bets s) \<longrightarrow>
      (\<exists>b. Map_get lt (bets s) = Some b
         \<and> fst (updateBet lt a d c s) =
             Inr (b\<lparr>bet_size := \<lparr>mana = a, direction = d\<rparr>, comment := c\<rparr>)
         \<and> Map_get lt (bets (snd (updateBet lt a d c s))) =
             Some (b\<lparr>bet_size := \<lparr>mana = a, direction = d\<rparr>, comment := c\<rparr>)
         \<and> map fst (bets (snd (updateBet lt a d c s))) = map fst (bets s)
         \<and> (\<forall>key. key \<noteq> lt \<longrightarrow>
               Map_get key (bets (snd (updateBet lt a d c s))) = Map_get key (bets s)))"
  proof
    assume "Map_has lt (bets s)"
    then obtain b where b: "Map_get lt (bets s) = Some b"
      by (rule Map_has_get [THEN exE])
    show "\<exists>b. Map_get lt (bets s) = Some b
         \<and> fst (updateBet lt a d c s) =
             Inr (b\<lparr>bet_size := \<lparr>mana = a, direction = d\<rparr>, comment := c\<rparr>)
         \<and> Map_get lt (bets (snd (updateBet lt a d c s))) =
             Some (b\<lparr>bet_size := \<lparr>mana = a, direction = d\<rparr>, comment := c\<rparr>)
         \<and> map fst (bets (snd (updateBet lt a d c s))) = map fst (bets s)
         \<and> (\<forall>key. key \<noteq> lt \<longrightarrow>
               Map_get key (bets (snd (updateBet lt a d c s))) = Map_get key (bets s))"
    proof (rule exI [of _ b], intro conjI allI impI)
      show "Map_get lt (bets s) = Some b" by (rule b)
      show "fst (updateBet lt a d c s) =
             Inr (b\<lparr>bet_size := \<lparr>mana = a, direction = d\<rparr>, comment := c\<rparr>)"
        by (rule updateBet_result [OF b])
      show "Map_get lt (bets (snd (updateBet lt a d c s))) =
             Some (b\<lparr>bet_size := \<lparr>mana = a, direction = d\<rparr>, comment := c\<rparr>)"
        by (simp add: updateBet_get [OF b])
      show "map fst (bets (snd (updateBet lt a d c s))) = map fst (bets s)"
        by (rule updateBet_keys)
      show "Map_get key (bets (snd (updateBet lt a d c s))) = Map_get key (bets s)"
        if "key \<noteq> lt" for key
        using that by (simp add: updateBet_get [OF b])
    qed
  qed
qed

theorem updateBet_found_or_not_witness:
  "\<not> Map_has 0 (bets newMarketLogic)
   \<and> updateBet 0 7 NO None newMarketLogic = (Inl (Error ''Bet not found''), newMarketLogic)
   \<and> Map_has 0 (bets (snd (placeBet ''t'' 5 YES None None newMarketLogic)))
   \<and> fst (updateBet 0 7 NO (Some ''x'') (snd (placeBet ''t'' 5 YES None None newMarketLogic))) =
       Inr \<lparr>timestamp = ''t'', bet_size = \<lparr>mana = 7, direction = NO\<rparr>, comment = Some ''x'',
            sharesReceived = 0, log2oddsBefore = 0, log2oddsAfter = 0\<rparr>"
proof -
  have n: "\<not> Map_has 0 (bets newMarketLogic)"
    by (simp add: bets_newMarketLogic)
  have p: "Map_has 0 (bets (snd (placeBet ''t'' 5 YES None None newMarketLogic)))"
    by (simp add: bets_first_bet)
  have g: "Map_get 0 (bets (snd (placeBet ''t'' 5 YES None None newMarketLogic))) =
             Some \<lparr>timestamp = ''t'', bet_size = \<lparr>mana = 5, direction = YES\<rparr>, comment = None,
                   sharesReceived = 0, log2oddsBefore = 0, log2oddsAfter = 0\<rparr>"
    by (simp add: bets_first_bet)
  have 1: "updateBet 0 7 NO None newMarketLogic = (Inl (Error ''Bet not found''), newMarketLogic)"
    using updateBet_found_or_not [of 0 newMarketLogic 7 NO None] n by blast
  obtain b where b: "Map_get 0 (bets (snd (placeBet ''t'' 5 YES None None newMarketLogic))) = Some b"
    and r: "fst (updateBet 0 7 NO (Some ''x'') (snd (placeBet ''t'' 5 YES None None newMarketLogic))) =
              Inr (b\<lparr>bet_size := \<lparr>mana = 7, direction = NO\<rparr>, comment := Some ''x''\<rparr>)"
    using updateBet_found_or_not
            [of 0 "snd (placeBet ''t'' 5 YES None None newMarketLogic)" 7 NO "Some ''x''"] p
    by blast
  have "b = \<lparr>timestamp = ''t'', bet_size = \<lparr>mana = 5, direction = YES\<rparr>, comment = None,
             sharesReceived = 0, log2oddsBefore = 0, log2oddsAfter = 0\<rparr>"
    using b g by simp
  then show ?thesis using n p 1 r by simp
qed

subsection \<open>C9: keys, insertion order and the order of replay\<close>



subsection \<open>C10: what amending leaves alone\<close>

text \<open>
  C10. On a key that is present, \<open>updateBet\<close> changes the amount, the direction and
  the comment of the stored bet and nothing else: its timestamp, \<open>sharesReceived\<close>,
  \<open>log2oddsBefore\<close> and \<open>log2oddsAfter\<close> are as before. Called without a comment, it
  leaves the stored bet without one.
\<close>

theorem updateBet_touches:
  assumes "Map_get lt (bets s) = Some b"
  shows "(\<exists>b'. fst (updateBet lt a d c s) = Inr b'
            \<and> Map_get lt (bets (snd (updateBet lt a d c s))) = Some b'
            \<and> timestamp b' = timestamp b
            \<and> sharesReceived b' = sharesReceived b
            \<and> log2oddsBefore b' = log2oddsBefore b
            \<and> log2oddsAfter b' = log2oddsAfter b
            \<and> bet_size b' = \<lparr>mana = a, direction = d\<rparr>
            \<and> comment b' = c)
       \<and> (\<exists>b'. fst (updateBet lt a d None s) = Inr b'
            \<and> Map_get lt (bets (snd (updateBet lt a d None s))) = Some b'
            \<and> comment b' = None)"
proof (rule conjI)
  show "\<exists>b'. fst (updateBet lt a d c s) = Inr b'
            \<and> Map_get lt (bets (snd (updateBet lt a d c s))) = Some b'
            \<and> timestamp b' = timestamp b
            \<and> sharesReceived b' = sharesReceived b
            \<and> log2oddsBefore b' = log2oddsBefore b
            \<and> log2oddsAfter b' = log2oddsAfter b
            \<and> bet_size b' = \<lparr>mana = a, direction = d\<rparr>
            \<and> comment b' = c"
    by (rule exI [of _ "b\<lparr>bet_size := \<lparr>mana = a, direction = d\<rparr>, comment := c\<rparr>"])
       (simp add: updateBet_result [OF assms] updateBet_get [OF assms])
next
  show "\<exists>b'. fst (updateBet lt a d None s) = Inr b'
            \<and> Map_get lt (bets (snd (updateBet lt a d None s))) = Some b'
            \<and> comment b' = None"
    by (rule exI [of _ "b\<lparr>bet_size := \<lparr>mana = a, direction = d\<rparr>, comment := None\<rparr>"])
       (simp add: updateBet_result [OF assms] updateBet_get [OF assms])
qed

theorem updateBet_touches_witness:
  "Map_get 0 (bets (snd (placeBet ''t'' 5 YES (Some ''c'') None newMarketLogic))) =
     Some \<lparr>timestamp = ''t'', bet_size = \<lparr>mana = 5, direction = YES\<rparr>, comment = Some ''c'',
           sharesReceived = 0, log2oddsBefore = 0, log2oddsAfter = 0\<rparr>
   \<and> (\<exists>b'. fst (updateBet 0 7 NO None
                  (snd (placeBet ''t'' 5 YES (Some ''c'') None newMarketLogic))) = Inr b'
          \<and> timestamp b' = ''t'' \<and> comment b' = None)"
proof -
  have h: "Map_get 0 (bets (snd (placeBet ''t'' 5 YES (Some ''c'') None newMarketLogic))) =
     Some \<lparr>timestamp = ''t'', bet_size = \<lparr>mana = 5, direction = YES\<rparr>, comment = Some ''c'',
           sharesReceived = 0, log2oddsBefore = 0, log2oddsAfter = 0\<rparr>"
    by (simp add: bets_first_bet)
  obtain b' where
    "fst (updateBet 0 7 NO None (snd (placeBet ''t'' 5 YES (Some ''c'') None newMarketLogic))) = Inr b'"
    "timestamp b' = ''t''" "comment b' = None"
    using updateBet_touches [OF h, of 7 NO None] by auto
  then show ?thesis using h by blast
qed

subsection \<open>Amounts that are not positive\<close>

lemma placeBet_records:
  "mana (bet_size (fst (placeBet now a d c ts s))) = a
   \<and> Map_get (real (length (bets s))) (bets (snd (placeBet now a d c ts s))) =
       Some (fst (placeBet now a d c ts s))"
  by (simp add: placeBet_def Let_def Map_get_Map_set)

lemma updateBet_records:
  assumes "Map_has lt (bets s)"
  shows "\<exists>b. Map_get lt (bets (snd (updateBet lt a d c s))) = Some b \<and> mana (bet_size b) = a"
proof -
  obtain b where b: "Map_get lt (bets s) = Some b"
    using assms by (rule Map_has_get [THEN exE])
  show ?thesis
    by (simp add: updateBet_present [OF b] Map_get_Map_set)
qed

lemma forms_refuse:
  assumes "amount = None \<or> (\<exists>a. amount = Some a \<and> a \<le> 0)"
  shows "betButton_click now amount dir commentValue v = Inr v
       \<and> saveButton_click index amount dir commentValue v = Inr v"
  using assms by (auto simp add: betButton_click_def saveButton_click_def Let_def)

subsection \<open>C6: who refuses an amount that is not positive\<close>

text \<open>
  C6, as the code has it. The two forms refuse an amount that is NaN or not above 0
  before they call the ledger: the view, and the ledger in it, is as before. The
  ledger itself does not look at the amount: \<open>placeBet\<close> stores a bet of whatever
  amount it is given under the next key, and \<open>updateBet\<close> on a key that is present
  leaves the stored bet with whatever amount it is given.
\<close>

theorem amount_checked_by_forms_only:
  "((amount = None \<or> (\<exists>x. amount = Some x \<and> x \<le> 0)) \<longrightarrow>
       betButton_click now amount dir commentValue v = Inr v
     \<and> saveButton_click index amount dir commentValue v = Inr v)
   \<and> mana (bet_size (fst (placeBet now a d c ts s))) = a
   \<and> Map_get (real (length (bets s))) (bets (snd (placeBet now a d c ts s))) =
       Some (fst (placeBet now a d c ts s))
   \<and> (Map_has lt (bets s) \<longrightarrow>
        (\<exists>b. Map_get lt (bets (snd (updateBet lt a d c s))) = Some b \<and> mana (bet_size b) = a))"
  using forms_refuse [of amount now dir commentValue v index]
        placeBet_records [of now a d c ts s] updateBet_records [of lt s a d c]
  by blast

theorem amount_checked_by_forms_only_witness:
  "betButton_click ''t'' (Some (- 5)) YES [] \<lparr>market = None, logic = newMarketLogic\<rparr> =
     Inr \<lparr>market = None, logic = newMarketLogic\<rparr>
   \<and> saveButton_click 0 None YES [] \<lparr>market = None, logic = newMarketLogic\<rparr> =
     Inr \<lparr>market = None, logic = newMarketLogic\<rparr>
   \<and> Map_has 0 (bets (snd (placeBet ''t'' 5 YES None None newMarketLogic)))
   \<and> (\<exists>b. Map_get 0 (bets (snd (updateBet 0 (- 5) YES None
                                  (snd (placeBet ''t'' 5 YES None None newMarketLogic))))) = Some b
          \<and> mana (bet_size b) = - 5)"
proof -
  have p: "Map_has 0 (bets (snd (placeBet ''t'' 5 YES None None newMarketLogic)))"
    by (simp add: bets_first_bet)
  have 1: "betButton_click ''t'' (Some (- 5)) YES [] \<lparr>market = None, logic = newMarketLogic\<rparr> =
     Inr \<lparr>market = None, logic = newMarketLogic\<rparr>"
    using amount_checked_by_forms_only
      [where amount = "Some (- 5)" and now = "''t''" and dir = YES and commentValue = "[]"
         and v = "\<lparr>market = None, logic = newMarketLogic\<rparr>"]
    by simp
  have 2: "saveButton_click 0 None YES [] \<lparr>market = None, logic = newMarketLogic\<rparr> =
     Inr \<lparr>market = None, logic = newMarketLogic\<rparr>"
    using amount_checked_by_forms_only
      [where amount = None and index = 0 and dir = YES and commentValue = "[]"
         and v = "\<lparr>market = None, logic = newMarketLogic\<rparr>"]
    by simp
  have 3: "\<exists>b. Map_get 0 (bets (snd (updateBet 0 (- 5) YES None
                                  (snd (placeBet ''t'' 5 YES None None newMarketLogic))))) = Some b
          \<and> mana (bet_size b) = - 5"
    using amount_checked_by_forms_only
      [where lt = 0 and a = "- 5" and d = YES and c = None
         and s = "snd (placeBet ''t'' 5 YES None None newMarketLogic)"] p
    by blast
  show ?thesis using p 1 2 3 by blast
qed

text \<open>
  C6 as stated fails: on a new ledger \<open>placeBet\<close> with the amount \<open>-5\<close> records a bet
  of \<open>-5\<close>, and \<open>updateBet\<close> with the amount \<open>-5\<close> leaves the stored bet with \<open>-5\<close>.
\<close>

theorem core_records_nonpositive:
  "bets newMarketLogic = []
   \<and> bets (snd (placeBet ''t'' (- 5) YES None None newMarketLogic)) =
       [(0, \<lparr>timestamp = ''t'', bet_size = \<lparr>mana = - 5, direction = YES\<rparr>, comment = None,
             sharesReceived = 0, log2oddsBefore = 0, log2oddsAfter = 0\<rparr>)]
   \<and> bets (snd (updateBet 0 (- 5) NO None (snd (placeBet ''t'' 5 YES None None newMarketLogic)))) =
       [(0, \<lparr>timestamp = ''t'', bet_size = \<lparr>mana = - 5, direction = NO\<rparr>, comment = None,
             sharesReceived = 0, log2oddsBefore = 0, log2oddsAfter = 0\<rparr>)]"
proof -
  have g: "Map_get 0 (bets (snd (placeBet ''t'' 5 YES None None newMarketLogic))) =
             Some \<lparr>timestamp = ''t'', bet_size = \<lparr>mana = 5, direction = YES\<rparr>, comment = None,
                   sharesReceived = 0, log2oddsBefore = 0, log2oddsAfter = 0\<rparr>"
    by (simp add: bets_first_bet)
  show ?thesis
    by (simp add: updateBet_present [OF g] bets_first_bet bets_newMarketLogic)
qed

subsection \<open>Loading a document\<close>

lemma replay_newMarketLogic:
  "replay newMarketLogic =
     (\<lparr>yesShares = 0, noShares = 0, res_mana = 0, res_bets = []\<rparr>, newMarketLogic)"
  by (simp add: replay_def newMarketLogic_def)

lemma log2odds_newMarketLogic: "log2odds (computeState newMarketLogic) = 0"
  by (simp add: computeState_def newMarketLogic_def log2_512)

lemma drawMe_default:
  "drawMe \<lparr>market = Some defaultMarket, logic = newMarketLogic\<rparr> =
     Inr \<lparr>market =
            Some \<lparr>name = Some ''Prediction Market'',
                  market_bets = [],
                  market_pool = Some \<lparr>pool_yesShares = 512, pool_noShares = 512, pool_k = 81\<rparr>,
                  market_log2odds = 0,
                  userShares = 0,
                  resolution = None\<rparr>,
          logic = \<lparr>pool = (512, 512), k = 81, bets = []\<rparr>\<rparr>"
proof -
  have n: "newMarketLogic = \<lparr>pool = (512, 512), k = 81, bets = []\<rparr>"
    by (simp add: newMarketLogic_def log2_512)
  show ?thesis
    by (simp add: drawMe_def replay_newMarketLogic log2odds_newMarketLogic defaultMarket_def
        getPool_def pool_newMarketLogic log2_512 n [symmetric])
qed

lemma placeAll_fails_iff:
  "(\<exists>e. placeAll now entries l = Inl e) \<longleftrightarrow> (\<exists>bet \<in> set entries. doc_size bet = None)"
  by (induction entries arbitrary: l) (auto split: option.splits)

lemma tryLoad_fails_iff:
  "(\<exists>e. tryLoad p now = Inl e) \<longleftrightarrow>
     p = Throws \<or> p = Falsy
     \<or> (\<exists>doc. p = Truthy doc
          \<and> (doc_bets doc = None
              \<or> (\<exists>entries. doc_bets doc = Some entries
                    \<and> (\<exists>bet \<in> set entries. doc_size bet = None))))"
proof (cases p)
  case Throws
  then show ?thesis by (simp add: tryLoad_def)
next
  case Falsy
  then show ?thesis by (simp add: tryLoad_def)
next
  case (Truthy doc)
  show ?thesis
  proof (cases "doc_bets doc")
    case None
    then show ?thesis using Truthy by (simp add: tryLoad_def)
  next
    case (Some entries)
    have "(\<exists>e. tryLoad p now = Inl e) \<longleftrightarrow> (\<exists>e. placeAll now entries newMarketLogic = Inl e)"
      using Truthy Some by (simp add: tryLoad_def split: sum.splits)
    then show ?thesis
      using Truthy Some placeAll_fails_iff [of now entries newMarketLogic] by simp
  qed
qed

text \<open>
  When the \<open>try\<close> block of \<open>setViewData\<close> throws, which by \<open>tryLoad_fails_iff\<close> is when
  \<open>JSON.parse\<close> throws, or returns a falsy value, or a value whose \<open>bets\<close> is not an
  array, or an array with an entry on which \<open>bet.size.mana\<close> throws, then
  \<open>setViewData\<close> returns without an exception and leaves the market
  \<open>{name: "Prediction Market", bets: [], pool: {512, 512, k: 81}, log2odds: 0,
  userShares: 0}\<close> and a ledger without bets.
\<close>

lemma setViewData_fallback:
  assumes "tryLoad parsed_content now = Inl e"
  shows "setViewData parsed_content now clear v =
     Inr \<lparr>market =
            Some \<lparr>name = Some ''Prediction Market'',
                  market_bets = [],
                  market_pool = Some \<lparr>pool_yesShares = 512, pool_noShares = 512, pool_k = 81\<rparr>,
                  market_log2odds = 0,
                  userShares = 0,
                  resolution = None\<rparr>,
          logic = \<lparr>pool = (512, 512), k = 81, bets = []\<rparr>\<rparr>"
proof -
  have v: "v\<lparr>market := Some defaultMarket, logic := newMarketLogic\<rparr> =
          \<lparr>market = Some defaultMarket, logic = newMarketLogic\<rparr>"
    by (cases v) simp
  have "setViewData parsed_content now clear v =
          drawMe (v\<lparr>market := Some defaultMarket, logic := newMarketLogic\<rparr>)"
    by (simp add: setViewData_def assms)
  then show ?thesis by (simp only: v drawMe_default)
qed


subsection \<open>C8: a document that is no market snapshot\<close>

text \<open>
  C8 says that every document that cannot be read as a \<open>MarketData\<close> ends in the
  market of the \<open>catch\<close> block with no exception leaving \<open>setViewData\<close>. The code at
  the document \<open>{"bets":[]}\<close>: it is no \<open>MarketData\<close>, for it has no \<open>pool\<close> (nor a
  \<open>name\<close>), yet the \<open>try\<close> block runs through on it, the \<open>catch\<close> block is not entered,
  and \<open>drawMe\<close>, called after the \<open>try\<close> statement, throws a \<open>TypeError\<close> on
  \<open>this.market.pool.k\<close>, which leaves \<open>setViewData\<close>.
\<close>

theorem setViewData_no_pool:
  "setViewData
     (Truthy \<lparr>doc_name = None, doc_bets = Some [], doc_pool = None, doc_resolution = None\<rparr>)
     ''t'' False \<lparr>market = None, logic = newMarketLogic\<rparr> = Inl TypeError"
  by (simp add: setViewData_def tryLoad_def adopt_def drawMe_def replay_newMarketLogic)

end
